theory Spec2Isabelle
  imports Complex_Main
begin

section \<open>Numbers, cells and tables\<close>

text \<open>
  The program keeps its per-game values in pandas columns of 64-bit floats. A value is
  modelled as either the missing-value marker \<open>NaN\<close> or an exact rational \<open>Num x\<close>;
  binary rounding error and the infinities are outside the model.
\<close>

datatype float64 = NaN | Num rat

text \<open>
  A cell of a table is a numeric value or a piece of text (a date, an unparsed entry).
  A table (a DataFrame) is the ordered list of its named columns; all columns of one
  table have the same length.
\<close>

datatype cell = Val float64 | Str string

type_synonym frame = "(string \<times> cell list) list"

text \<open>
  Python exceptions as values. \<open>RuntimeError prefix cause\<close> is what
  \<^verbatim>\<open>except Exception as e: raise RuntimeError(f"prefix{e}")\<close> raises: its message is the
  prefix followed by the text of \<open>cause\<close>. \<open>KeyError\<close> and \<open>TypeError\<close> are raised
  inside pandas and \<open>ApiError m\<close> inside the stats provider; their wording is the
  library's.
\<close>

datatype exn =
    ValueError string
  | RuntimeError string exn
  | KeyError
  | TypeError
  | ApiError string

subsection \<open>Rounding\<close>

text \<open>
  \<^verbatim>\<open>round(x, n)\<close> on a numpy float scales by \<open>10 ^ n\<close>, rounds to the nearest integer with
  ties going to the even neighbour, and scales back. NaN stays NaN.

  The model does this on the exact quotient, numpy on its float64 image. For a ratio
  \<open>c / n\<close>, and for a mean of whole numbers, over \<open>n \<le> 10\<close> rows the two give the same
  decimal: such a quotient either stays at least \<open>1 / (2 * n)\<close> hundredths away from a tie,
  far more than the float64 error, or it is a tie, which needs \<open>n = 8\<close> and is then a binary
  fraction that float64 holds exactly. On longer columns they can differ: for 23 rows of
  40 the exact quotient 0.575 is a tie and rounds to 0.58, its float64 image lies below
  the tie and numpy returns 0.57. The two-decimal values below are therefore stated for
  columns of at most ten rows, the window of 5 or 10 games.
\<close>

definition rint :: "rat \<Rightarrow> int" where
  "rint x =
     (let f = \<lfloor>x\<rfloor>; d = x - of_int f
      in if d < 1 / 2 then f
         else if 1 / 2 < d then f + 1
         else if even f then f else f + 1)"

definition round_to :: "nat \<Rightarrow> rat \<Rightarrow> rat" where
  "round_to n x = of_int (rint (x * 10 ^ n)) / 10 ^ n"

fun py_round :: "float64 \<Rightarrow> nat \<Rightarrow> float64" where
  "py_round NaN n = NaN"
| "py_round (Num x) n = Num (round_to n x)"

section \<open>StatFormula\<close>

record StatFormula =
  data :: frame
  stat :: string
  threshold :: "float64 option"

definition upper_char :: "char \<Rightarrow> char" where
  "upper_char c =
     (let k = (of_char c :: nat)
      in if 97 \<le> k \<and> k \<le> 122 then char_of (k - 32) else c)"

definition lower_char :: "char \<Rightarrow> char" where
  "lower_char c =
     (let k = (of_char c :: nat)
      in if 65 \<le> k \<and> k \<le> 90 then char_of (k + 32) else c)"

definition upper :: "string \<Rightarrow> string" where
  "upper s = map upper_char s"

text \<open>
  \<^verbatim>\<open>StatFormula.__init__\<close>: the stat code is stored in upper case. The stat codes are
  ASCII words, and \<open>upper\<close> is \<^verbatim>\<open>str.upper\<close> on ASCII text.
\<close>

definition StatFormula_init :: "frame \<Rightarrow> string \<Rightarrow> float64 option \<Rightarrow> StatFormula" where
  "StatFormula_init d s t = \<lparr>data = d, stat = upper s, threshold = t\<rparr>"

text \<open>
  \<^verbatim>\<open>values >= threshold\<close>: a comparison with NaN on either side is false; comparing text
  with a number raises TypeError.
\<close>

fun ge_float :: "float64 \<Rightarrow> float64 \<Rightarrow> bool" where
  "ge_float (Num x) (Num t) = (t \<le> x)"
| "ge_float _ _ = False"

fun ge_cells :: "cell list \<Rightarrow> float64 \<Rightarrow> exn + bool list" where
  "ge_cells [] t = Inr []"
| "ge_cells (Str s # cs) t = Inl TypeError"
| "ge_cells (Val v # cs) t =
     (case ge_cells cs t of Inl e \<Rightarrow> Inl e | Inr bs \<Rightarrow> Inr (ge_float v t # bs))"

text \<open>\<^verbatim>\<open>.sum()\<close> of a boolean column: the number of True entries.\<close>

definition sum_bool :: "bool list \<Rightarrow> nat" where
  "sum_bool bs = length (filter (\<lambda>b. b) bs)"

text \<open>
  \<^verbatim>\<open>count / len(values)\<close>: the count is a numpy integer, so a zero divisor gives NaN
  (with a warning), not ZeroDivisionError. The count never exceeds the length, so
  \<open>0 / 0\<close> is the only division by zero that occurs.
\<close>

definition true_divide :: "nat \<Rightarrow> nat \<Rightarrow> float64" where
  "true_divide c n = (if n = 0 then NaN else Num (of_nat c / of_nat n))"

text \<open>
  \<^verbatim>\<open>values.mean()\<close>: the sum of the entries that are not NaN over their number; NaN when
  there is none. Text in the column raises TypeError.
\<close>

fun nansum :: "cell list \<Rightarrow> rat \<times> nat \<Rightarrow> exn + rat \<times> nat" where
  "nansum [] acc = Inr acc"
| "nansum (Str s # cs) acc = Inl TypeError"
| "nansum (Val NaN # cs) acc = nansum cs acc"
| "nansum (Val (Num x) # cs) (s, k) = nansum cs (s + x, Suc k)"

definition mean :: "cell list \<Rightarrow> exn + float64" where
  "mean cs =
     (case nansum cs (0, 0) of
        Inl e \<Rightarrow> Inl e
      | Inr (s, k) \<Rightarrow> Inr (if k = 0 then NaN else Num (s / of_nat k)))"

definition quote :: char where
  "quote = CHR 0x27"

definition compute_body :: "StatFormula \<Rightarrow> cell list \<Rightarrow> exn + float64" where
  "compute_body self values =
     (case threshold self of
        Some t \<Rightarrow>
          (case ge_cells values t of
             Inl e \<Rightarrow> Inl e
           | Inr bs \<Rightarrow> Inr (py_round (true_divide (sum_bool bs) (length values)) 2))
      | None \<Rightarrow>
          (case mean values of
             Inl e \<Rightarrow> Inl e
           | Inr m \<Rightarrow> Inr (py_round m 2)))"

text \<open>
  \<^verbatim>\<open>StatFormula.compute\<close>: a missing column is the KeyError branch; any other exception
  of the body is wrapped into a RuntimeError.
\<close>

definition compute :: "StatFormula \<Rightarrow> exn + float64" where
  "compute self =
     (case map_of (data self) (stat self) of
        None \<Rightarrow>
          Inl (ValueError (''Stat '' @ [quote] @ stat self @ [quote] @ '' not found in game data.''))
      | Some values \<Rightarrow>
          (case compute_body self values of
             Inl e \<Rightarrow> Inl (RuntimeError ''Error computing stat formula: '' e)
           | Inr r \<Rightarrow> Inr r))"

section \<open>NBAData\<close>

text \<open>
  \<^verbatim>\<open>str.lower\<close> and \<^verbatim>\<open>str.title\<close> belong to Python and fold every cased letter of
  Unicode. The lookup below takes them as parameters \<open>str_lower\<close> and \<open>str_title\<close>, so that
  what is proved of it holds for names in any script.

  \<open>ascii_lower\<close> and \<open>ascii_title\<close> are these two functions on ASCII text, where a letter
  that follows a letter is put in lower case by \<^verbatim>\<open>title\<close>, any other letter in upper case,
  and other characters are kept. They stand for the parameters where a result is
  evaluated on ASCII names.
\<close>

definition ascii_lower :: "string \<Rightarrow> string" where
  "ascii_lower s = map lower_char s"

definition is_cased :: "char \<Rightarrow> bool" where
  "is_cased c =
     (let k = (of_char c :: nat)
      in (65 \<le> k \<and> k \<le> 90) \<or> (97 \<le> k \<and> k \<le> 122))"

fun title_from :: "bool \<Rightarrow> string \<Rightarrow> string" where
  "title_from previous_is_cased [] = []"
| "title_from previous_is_cased (c # cs) =
     (if previous_is_cased then lower_char c else upper_char c) # title_from (is_cased c) cs"

definition ascii_title :: "string \<Rightarrow> string" where
  "ascii_title s = title_from False s"

record NBAData =
  name :: string
  player_id :: int
  is_active :: bool

text \<open>
  \<^verbatim>\<open>try: body except Exception as e: raise RuntimeError(f"{prefix}{e}")\<close>: every
  exception of the body, whatever its class, leaves as a RuntimeError.
\<close>

definition wrap :: "string \<Rightarrow> exn + 'a \<Rightarrow> exn + 'a" where
  "wrap prefix r = (case r of Inl e \<Rightarrow> Inl (RuntimeError prefix e) | Inr v \<Rightarrow> Inr v)"

subsection \<open>lookup_player_id\<close>

text \<open>
  An entry of the provider's player directory. The directory call either raises or
  returns the list of all entries.
\<close>

record player_entry =
  full_name :: string
  entry_id :: int

definition lookup_player_id ::
    "(string \<Rightarrow> string) \<Rightarrow> string \<Rightarrow> exn + player_entry list \<Rightarrow> exn + int" where
  "lookup_player_id str_lower self_name get_players =
     wrap ''Error looking up player ID: ''
       (case get_players of
          Inl e \<Rightarrow> Inl e
        | Inr all_players \<Rightarrow>
            (case filter (\<lambda>p. str_lower (full_name p) = str_lower self_name) all_players of
               [] \<Rightarrow>
                 Inl (ValueError (''Player '' @ [quote] @ self_name @ [quote]
                                   @ '' not found in NBA API.''))
             | p # _ \<Rightarrow> Inr (entry_id p)))"

text \<open>
  The first two statements of \<^verbatim>\<open>NBAData.__init__\<close>: the name is put in title case and
  looked up.
\<close>

definition init_player_id ::
    "(string \<Rightarrow> string) \<Rightarrow> (string \<Rightarrow> string) \<Rightarrow> string \<Rightarrow> exn + player_entry list
       \<Rightarrow> exn + int" where
  "init_player_id str_lower str_title input_name get_players =
     lookup_player_id str_lower (str_title input_name) get_players"

subsection \<open>get_career_averages\<close>

text \<open>
  A row of the career-totals table: games played and the five totals. The provider is a
  function from the player identifier to an exception or the rows of that table.
\<close>

record career_row =
  GP :: int
  PTS :: int
  AST :: int
  REB :: int
  BLK :: int
  STL :: int

text \<open>The division is reached only with \<open>gp \<noteq> 0\<close>.\<close>

definition per_game :: "int \<Rightarrow> int \<Rightarrow> float64" where
  "per_game stat_total gp = py_round (Num (of_int stat_total / of_int gp)) 1"

definition get_career_averages ::
    "NBAData \<Rightarrow> (int \<Rightarrow> exn + career_row list) \<Rightarrow> exn + (string \<times> float64) list" where
  "get_career_averages self PlayerCareerStats =
     wrap ''Error retrieving career averages: ''
       (case PlayerCareerStats (player_id self) of
          Inl e \<Rightarrow> Inl e
        | Inr df \<Rightarrow>
            (case df of
               [] \<Rightarrow> Inr []
             | r # _ \<Rightarrow>
                 if GP r = 0 then Inr []
                 else
                   let gp = GP r
                   in Inr [(''PTS'', per_game (PTS r) gp),
                           (''AST'', per_game (AST r) gp),
                           (''REB'', per_game (REB r) gp),
                           (''BLK'', per_game (BLK r) gp),
                           (''STL'', per_game (STL r) gp)]))"

subsection \<open>get_recent_games\<close>

definition nrows :: "frame \<Rightarrow> nat" where
  "nrows df = (case df of [] \<Rightarrow> 0 | (_, c) # _ \<Rightarrow> length c)"

text \<open>All columns of a table have the same number of entries.\<close>

definition rectangular :: "frame \<Rightarrow> bool" where
  "rectangular df = list_all (\<lambda>(c, col). length col = nrows df) df"

text \<open>\<^verbatim>\<open>df.empty\<close>: no column or no row.\<close>

definition empty_frame :: "frame \<Rightarrow> bool" where
  "empty_frame df = (df = [] \<or> nrows df = 0)"

text \<open>\<^verbatim>\<open>df[[c1, ..., cn]]\<close>: the named columns in that order; KeyError when one is missing.\<close>

fun select_columns :: "string list \<Rightarrow> frame \<Rightarrow> exn + frame" where
  "select_columns [] df = Inr []"
| "select_columns (c # cs) df =
     (case map_of df c of
        None \<Rightarrow> Inl KeyError
      | Some col \<Rightarrow>
          (case select_columns cs df of
             Inl e \<Rightarrow> Inl e
           | Inr rest \<Rightarrow> Inr ((c, col) # rest)))"

text \<open>
  \<^verbatim>\<open>df.head(n)\<close> is the slice \<^verbatim>\<open>[:n]\<close> of the rows: the first \<open>n\<close> rows, and for a
  negative \<open>n\<close> all rows but the last \<open>- n\<close>.
\<close>

definition py_head :: "int \<Rightarrow> 'a list \<Rightarrow> 'a list" where
  "py_head n xs = (if 0 \<le> n then take (nat n) xs else take (length xs - nat (- n)) xs)"

definition head :: "int \<Rightarrow> frame \<Rightarrow> frame" where
  "head n df = map (\<lambda>(c, col). (c, py_head n col)) df"

text \<open>
  \<^verbatim>\<open>pd.to_numeric(col, errors='coerce')\<close>: numbers are kept, text is parsed and becomes
  NaN when it is no number. The parser of numeric text is the library's and is a
  parameter here.
\<close>

fun coerce_cell :: "(string \<Rightarrow> rat option) \<Rightarrow> cell \<Rightarrow> float64" where
  "coerce_cell parse (Val v) = v"
| "coerce_cell parse (Str s) = (case parse s of None \<Rightarrow> NaN | Some r \<Rightarrow> Num r)"

definition to_numeric :: "(string \<Rightarrow> rat option) \<Rightarrow> cell list \<Rightarrow> cell list" where
  "to_numeric parse col = map (\<lambda>x. Val (coerce_cell parse x)) col"

definition assign_numeric :: "(string \<Rightarrow> rat option) \<Rightarrow> frame \<Rightarrow> string \<Rightarrow> frame" where
  "assign_numeric parse df c =
     map (\<lambda>(c', col). if c' = c then (c', to_numeric parse col) else (c', col)) df"

definition stat_columns :: "string list" where
  "stat_columns = [''PTS'', ''AST'', ''REB'', ''BLK'', ''STL'']"

text \<open>
  The provider of game logs is a function from the player identifier and the season to
  an exception or a table. The second component of the result lists the provider calls
  that were made.
\<close>

definition get_recent_games ::
    "(string \<Rightarrow> rat option) \<Rightarrow> NBAData \<Rightarrow> (int \<Rightarrow> string \<Rightarrow> exn + frame) \<Rightarrow> string \<Rightarrow> int
       \<Rightarrow> (exn + frame) \<times> (int \<times> string) list" where
  "get_recent_games parse self PlayerGameLog season num_games =
     (if \<not> is_active self then
        (Inl (ValueError (name self @ '' is not an active player. Recent game logs unavailable.'')),
         [])
      else
        (wrap ''Error retrieving recent games: ''
           (case PlayerGameLog (player_id self) season of
              Inl e \<Rightarrow> Inl e
            | Inr df \<Rightarrow>
                if empty_frame df then
                  Inl (ValueError (''No game log data available for '' @ name self
                                    @ '' in season '' @ season @ ''.''))
                else
                  (case select_columns (''GAME_DATE'' # stat_columns) df of
                     Inl e \<Rightarrow> Inl e
                   | Inr sel \<Rightarrow> Inr (foldl (assign_numeric parse) (head num_games sel) stat_columns))),
         [(player_id self, season)]))"

section \<open>The prediction report\<close>

text \<open>Decimal rendering of numbers, as the format specifications of the driver need it.\<close>

definition digit_char :: "nat \<Rightarrow> char" where
  "digit_char d = char_of (48 + d)"

fun str_nat :: "nat \<Rightarrow> string" where
  "str_nat n = (if n < 10 then [digit_char n] else str_nat (n div 10) @ [digit_char (n mod 10)])"

declare str_nat.simps [simp del]

definition str_int :: "int \<Rightarrow> string" where
  "str_int i = (if i < 0 then ''-'' @ str_nat (nat (- i)) else str_nat (nat i))"

text \<open>
  \<^verbatim>\<open>{x:.df}\<close>: \<open>d\<close> digits after the point, the last one rounded with ties to even;
  \<^verbatim>\<open>nan\<close> for NaN.
\<close>

definition format_f :: "nat \<Rightarrow> float64 \<Rightarrow> string" where
  "format_f d v =
     (case v of
        NaN \<Rightarrow> ''nan''
      | Num x \<Rightarrow>
          (let m = nat (rint (\<bar>x\<bar> * 10 ^ d));
               ip = str_nat (m div 10 ^ d);
               fp = str_nat (m mod 10 ^ d)
           in (if x < 0 then ''-'' else []) @ ip
              @ (if d = 0 then [] else ''.'' @ replicate (d - length fp) (CHR ''0'') @ fp)))"

text \<open>
  \<^verbatim>\<open>str\<close> of a float, for the values Python writes in positional notation (magnitude
  from \<open>10^-4\<close> up to \<open>10^16\<close>): the integer part, a point and the digits of the fraction,
  at least one.
\<close>

fun frac_digits :: "nat \<Rightarrow> rat \<Rightarrow> string" where
  "frac_digits 0 r = []"
| "frac_digits (Suc k) r =
     (if r = 0 then []
      else let d = \<lfloor>r * 10\<rfloor> in digit_char (nat d) # frac_digits k (r * 10 - of_int d))"

definition str_float :: "float64 \<Rightarrow> string" where
  "str_float v =
     (case v of
        NaN \<Rightarrow> ''nan''
      | Num x \<Rightarrow>
          (let a = \<bar>x\<bar>; ip = \<lfloor>a\<rfloor>; fr = a - of_int ip
           in (if x < 0 then ''-'' else []) @ str_nat (nat ip) @ ''.''
              @ (if fr = 0 then ''0'' else frac_digits 17 fr)))"

fun times100 :: "float64 \<Rightarrow> float64" where
  "times100 NaN = NaN"
| "times100 (Num x) = Num (x * 100)"

text \<open>
  The three characters that stand between \<^verbatim>\<open>chance of\<close> and the threshold in the
  source of the driver, U+00E2, U+2030 and U+00A5, as the UTF-8 bytes of the source
  file; and the single character U+2265 (greater-than or equal to) in UTF-8.
\<close>

definition source_sign :: string where
  "source_sign = [CHR 0xC3, CHR 0xA2, CHR 0xE2, CHR 0x80, CHR 0xB0, CHR 0xC2, CHR 0xA5]"

definition ge_sign :: string where
  "ge_sign = [CHR 0xE2, CHR 0x89, CHR 0xA5]"

text \<open>The text handed to the last \<^verbatim>\<open>print\<close> of \<^verbatim>\<open>main\<close>.\<close>

definition report :: "string \<Rightarrow> string \<Rightarrow> int \<Rightarrow> float64 option \<Rightarrow> float64 \<Rightarrow> string" where
  "report player_name stat_code games thr result =
     (case thr of
        Some t \<Rightarrow>
          [CHR 0x0A] @ ''Prediction: '' @ player_name @ '' has a '' @ format_f 1 (times100 result)
          @ ''% chance of '' @ source_sign @ '' '' @ str_float t @ '' '' @ stat_code @ ''.''
      | None \<Rightarrow>
          [CHR 0x0A] @ ''Average '' @ stat_code @ '' over last '' @ str_int games @ '' games: ''
          @ format_f 2 result)"

text \<open>
  The tail of \<^verbatim>\<open>main\<close> for an active player once the parameters are known: fetch the
  recent games, compute, and build the report line. An exception ends the run.
\<close>

definition predict ::
    "(string \<Rightarrow> rat option) \<Rightarrow> NBAData \<Rightarrow> (int \<Rightarrow> string \<Rightarrow> exn + frame) \<Rightarrow> string \<Rightarrow> int
       \<Rightarrow> string \<Rightarrow> float64 option \<Rightarrow> exn + string" where
  "predict parse player PlayerGameLog season games stat_code thr =
     (case fst (get_recent_games parse player PlayerGameLog season games) of
        Inl e \<Rightarrow> Inl e
      | Inr recent \<Rightarrow>
          (case compute (StatFormula_init recent stat_code thr) of
             Inl e \<Rightarrow> Inl e
           | Inr result \<Rightarrow> Inr (report (name player) stat_code games thr result)))"

section \<open>Specification-side notions\<close>

text \<open>The entries of a column that are numbers, in order.\<close>

primrec known :: "float64 list \<Rightarrow> rat list" where
  "known [] = []"
| "known (v # vs) = (case v of NaN \<Rightarrow> known vs | Num x \<Rightarrow> x # known vs)"


section \<open>Example data\<close>

text \<open>Concrete players, a directory and game logs on which the results below are evaluated.\<close>

definition lebron :: NBAData where
  "lebron = \<lparr>name = ''Lebron James'', player_id = 2544, is_active = True\<rparr>"

definition retired :: NBAData where
  "retired = \<lparr>name = ''Michael Jordan'', player_id = 893, is_active = False\<rparr>"

definition directory :: "player_entry list" where
  "directory = [\<lparr>full_name = ''Stephen Curry'', entry_id = 201939\<rparr>,
                \<lparr>full_name = ''LeBron James'', entry_id = 2544\<rparr>]"

definition log3 :: frame where
  "log3 = [(''SEASON_ID'', [Str ''22024'', Str ''22024'', Str ''22024'']),
           (''GAME_DATE'', [Str ''APR 11, 2025'', Str ''APR 09, 2025'', Str ''APR 08, 2025'']),
           (''PTS'', [Val (Num 30), Val (Num 20), Str ''DNP'']),
           (''AST'', [Val (Num 8), Val (Num 11), Val (Num 5)]),
           (''REB'', [Val (Num 7), Val (Num 9), Val (Num 10)]),
           (''BLK'', [Val (Num 1), Val (Num 0), Val (Num 2)]),
           (''STL'', [Val (Num 2), Val NaN, Val (Num 1)])]"

definition log5 :: frame where
  "log5 = [(''GAME_DATE'', [Str ''APR 11, 2025'', Str ''APR 09, 2025'', Str ''APR 08, 2025'',
                            Str ''APR 06, 2025'', Str ''APR 04, 2025'']),
           (''PTS'', map (\<lambda>x. Val (Num x)) [30, 20, 28, 24, 26]),
           (''AST'', map (\<lambda>x. Val (Num x)) [8, 11, 5, 7, 9]),
           (''REB'', map (\<lambda>x. Val (Num x)) [7, 9, 10, 6, 8]),
           (''BLK'', map (\<lambda>x. Val (Num x)) [1, 0, 2, 0, 1]),
           (''STL'', map (\<lambda>x. Val (Num x)) [2, 1, 1, 0, 3])]"

definition recent3 :: frame where
  "recent3 = [(''GAME_DATE'', [Str ''APR 11, 2025'', Str ''APR 09, 2025'', Str ''APR 08, 2025'']),
              (''PTS'', [Val (Num 30), Val (Num 20), Val NaN]),
              (''AST'', [Val (Num 8), Val (Num 11), Val (Num 5)]),
              (''REB'', [Val (Num 7), Val (Num 9), Val (Num 10)]),
              (''BLK'', [Val (Num 1), Val (Num 0), Val (Num 2)]),
              (''STL'', [Val (Num 2), Val NaN, Val (Num 1)])]"

definition log0 :: frame where
  "log0 = [(''SEASON_ID'', []), (''GAME_DATE'', []), (''PTS'', []), (''AST'', []),
           (''REB'', []), (''BLK'', []), (''STL'', [])]"

definition recent0 :: frame where
  "recent0 = [(''GAME_DATE'', []), (''PTS'', []), (''AST'', []), (''REB'', []),
              (''BLK'', []), (''STL'', [])]"

definition no_parse :: "string \<Rightarrow> rat option" where
  "no_parse s = None"

section \<open>Rounding\<close>

lemma rint_bounds: "\<lfloor>y\<rfloor> \<le> rint y \<and> rint y \<le> \<lfloor>y\<rfloor> + 1"
  by (simp add: rint_def Let_def)

lemma rint_nearest: "\<bar>of_int (rint y) - y\<bar> \<le> 1 / 2"
proof -
  have "of_int \<lfloor>y\<rfloor> \<le> y" "y < of_int \<lfloor>y\<rfloor> + 1"
    by linarith+
  then show ?thesis
    by (auto simp: rint_def Let_def)
qed

lemma rint_tie_even:
  assumes "\<bar>of_int (rint y) - y\<bar> = 1 / 2"
  shows "even (rint y)"
proof -
  have fl: "of_int \<lfloor>y\<rfloor> \<le> y" "y < of_int \<lfloor>y\<rfloor> + 1"
    by linarith+
  show ?thesis
  proof (cases "y - of_int \<lfloor>y\<rfloor> = 1 / 2")
    case True
    then show ?thesis by (simp add: rint_def Let_def)
  next
    case False
    with assms fl show ?thesis
      by (auto simp: rint_def Let_def split: if_splits)
  qed
qed

lemma rint_of_int: "rint (of_int k) = k"
  by (simp add: rint_def Let_def)

lemma rint_mono:
  assumes "x \<le> y"
  shows "rint x \<le> rint y"
proof (cases "\<lfloor>x\<rfloor> = \<lfloor>y\<rfloor>")
  case True
  with assms show ?thesis
    by (auto simp: rint_def Let_def)
next
  case False
  from assms have "\<lfloor>x\<rfloor> \<le> \<lfloor>y\<rfloor>"
    by (rule floor_mono)
  with False have "\<lfloor>x\<rfloor> + 1 \<le> \<lfloor>y\<rfloor>"
    by simp
  with rint_bounds [of x] rint_bounds [of y] show ?thesis
    by linarith
qed

lemma round_to_mono: "x \<le> y \<Longrightarrow> round_to n x \<le> round_to n y"
  by (simp add: round_to_def divide_right_mono rint_mono mult_right_mono)

lemma round_to_nearest: "\<bar>round_to n x - x\<bar> \<le> 1 / (2 * 10 ^ n)"
proof -
  have "round_to n x - x = (of_int (rint (x * 10 ^ n)) - x * 10 ^ n) / 10 ^ n"
    by (simp add: round_to_def diff_divide_distrib)
  then have "\<bar>round_to n x - x\<bar> = \<bar>of_int (rint (x * 10 ^ n)) - x * 10 ^ n\<bar> / 10 ^ n"
    by (simp add: abs_divide)
  also have "\<dots> \<le> (1 / 2) / 10 ^ n"
    by (rule divide_right_mono [OF rint_nearest]) simp
  finally show ?thesis
    by simp
qed

lemma round_to_unit:
  assumes "0 \<le> x" and "x \<le> 1"
  shows "0 \<le> round_to n x \<and> round_to n x \<le> 1"
proof -
  have "round_to n 0 = 0"
    using rint_of_int [of 0] by (simp add: round_to_def)
  moreover have "round_to n 1 = 1"
    using rint_of_int [of "10 ^ n"] by (simp add: round_to_def)
  ultimately show ?thesis
    using round_to_mono [OF assms(1), of n] round_to_mono [OF assms(2), of n] by simp
qed

text \<open>
  \<open>round_to n\<close> picks a nearest multiple of \<open>10 ^ - n\<close>, and on a tie the one with an
  even numerator.
\<close>

lemma round_to_ties_even:
  "\<exists>m. round_to n x = of_int m / 10 ^ n
       \<and> \<bar>round_to n x - x\<bar> \<le> 1 / (2 * 10 ^ n)
       \<and> (\<bar>round_to n x - x\<bar> = 1 / (2 * 10 ^ n) \<longrightarrow> even m)"
proof -
  let ?m = "rint (x * 10 ^ n)"
  have pos: "(0::rat) < 10 ^ n"
    by simp
  have diff: "round_to n x - x = (of_int ?m - x * 10 ^ n) / 10 ^ n"
    by (simp add: round_to_def diff_divide_distrib)
  have "even ?m" if tie: "\<bar>round_to n x - x\<bar> = 1 / (2 * 10 ^ n)"
  proof -
    from tie have "\<bar>of_int ?m - x * 10 ^ n\<bar> / 10 ^ n = 1 / (2 * 10 ^ n)"
      unfolding diff by (simp add: abs_divide)
    then have "\<bar>of_int ?m - x * 10 ^ n\<bar> / 10 ^ n * 10 ^ n = 1 / (2 * 10 ^ n) * 10 ^ n"
      by (rule arg_cong)
    with pos have "\<bar>of_int ?m - x * 10 ^ n\<bar> = 1 / 2"
      by simp
    then show ?thesis
      by (rule rint_tie_even)
  qed
  moreover have "round_to n x = of_int ?m / 10 ^ n"
    by (simp add: round_to_def)
  ultimately show ?thesis
    using round_to_nearest [of n x] by blast
qed

section \<open>Letter case\<close>

lemma of_char_lt_256: "(of_char c :: nat) < 256"
proof -
  have "of_char c = (of_char c :: nat) mod 256"
    by (rule sym) (rule of_char_mod_256)
  also have "\<dots> < 256"
    by simp
  finally show ?thesis .
qed

lemma lower_upper_char: "lower_char (upper_char c) = lower_char c"
proof (cases "97 \<le> (of_char c :: nat) \<and> (of_char c :: nat) \<le> 122")
  case True
  then have up: "upper_char c = char_of ((of_char c :: nat) - 32)"
    by (simp add: upper_char_def Let_def)
  from True have "(of_char c :: nat) - 32 < 256"
    by arith
  then have k: "(of_char (char_of ((of_char c :: nat) - 32)) :: nat) = of_char c - 32"
    by (simp only: of_char_of mod_less)
  from True have rng: "65 \<le> (of_char c :: nat) - 32 \<and> (of_char c :: nat) - 32 \<le> 90"
    by arith
  have "lower_char (upper_char c) = char_of ((of_char c :: nat) - 32 + 32)"
    unfolding up lower_char_def Let_def k using rng by (simp only: if_True simp_thms)
  also from True have "\<dots> = char_of (of_char c :: nat)"
    by simp
  also have "\<dots> = c"
    by simp
  finally have "lower_char (upper_char c) = c" .
  moreover from True have "lower_char c = c"
    by (simp add: lower_char_def Let_def)
  ultimately show ?thesis
    by simp
next
  case False
  then have "upper_char c = c"
    by (auto simp: upper_char_def Let_def)
  then show ?thesis
    by simp
qed

lemma lower_lower_char: "lower_char (lower_char c) = lower_char c"
proof (cases "65 \<le> (of_char c :: nat) \<and> (of_char c :: nat) \<le> 90")
  case True
  then have lo: "lower_char c = char_of ((of_char c :: nat) + 32)"
    by (simp add: lower_char_def Let_def)
  from True have k: "(of_char (char_of ((of_char c :: nat) + 32)) :: nat) = of_char c + 32"
    by (simp add: of_char_of)
  have "lower_char (char_of ((of_char c :: nat) + 32)) = char_of ((of_char c :: nat) + 32)"
    unfolding lower_char_def Let_def k using True by simp
  then show ?thesis
    unfolding lo .
next
  case False
  then have "lower_char c = c"
    by (auto simp: lower_char_def Let_def)
  then show ?thesis
    by simp
qed

lemma lower_title_from: "ascii_lower (title_from b s) = ascii_lower s"
  by (induction s arbitrary: b) (simp_all add: ascii_lower_def lower_upper_char lower_lower_char)

text \<open>On ASCII text the title case of a name is invisible to a comparison in lower case.\<close>

lemma ascii_lower_title: "ascii_lower (ascii_title s) = ascii_lower s"
  by (simp add: ascii_title_def lower_title_from)

section \<open>Tables\<close>

lemma wrap_simps:
  "wrap prefix (Inl e) = Inl (RuntimeError prefix e)"
  "wrap prefix (Inr v) = Inr v"
  by (simp_all add: wrap_def)

lemma to_numeric_Val: "to_numeric parse col = map Val (map (coerce_cell parse) col)"
  by (simp add: to_numeric_def)

lemma length_to_numeric: "length (to_numeric parse col) = length col"
  by (simp add: to_numeric_def)

lemma length_py_head: "0 \<le> n \<Longrightarrow> length (py_head n xs) = min (nat n) (length xs)"
  by (simp add: py_head_def min_def)

lemma rectangular_column:
  assumes "rectangular df" and "map_of df c = Some col"
  shows "length col = nrows df"
proof -
  from assms(2) have "(c, col) \<in> set df"
    by (rule map_of_SomeD)
  with assms(1) show ?thesis
    by (auto simp: rectangular_def list_all_iff)
qed

lemma recent_games_result:
  assumes "is_active self"
    and "PlayerGameLog (player_id self) season = Inr df"
    and "\<not> empty_frame df"
    and "map_of df ''GAME_DATE'' = Some c0"
    and "map_of df ''PTS'' = Some c1"
    and "map_of df ''AST'' = Some c2"
    and "map_of df ''REB'' = Some c3"
    and "map_of df ''BLK'' = Some c4"
    and "map_of df ''STL'' = Some c5"
  shows "fst (get_recent_games parse self PlayerGameLog season n) =
           Inr [(''GAME_DATE'', py_head n c0),
                (''PTS'', to_numeric parse (py_head n c1)),
                (''AST'', to_numeric parse (py_head n c2)),
                (''REB'', to_numeric parse (py_head n c3)),
                (''BLK'', to_numeric parse (py_head n c4)),
                (''STL'', to_numeric parse (py_head n c5))]"
  using assms
  by (simp add: get_recent_games_def wrap_simps stat_columns_def head_def assign_numeric_def)

lemma select_columns_Inr:
  assumes "select_columns (''GAME_DATE'' # stat_columns) df = Inr sel"
  shows "\<exists>c0 c1 c2 c3 c4 c5.
           map_of df ''GAME_DATE'' = Some c0 \<and> map_of df ''PTS'' = Some c1
           \<and> map_of df ''AST'' = Some c2 \<and> map_of df ''REB'' = Some c3
           \<and> map_of df ''BLK'' = Some c4 \<and> map_of df ''STL'' = Some c5"
  using assms
  by (simp add: stat_columns_def split: option.splits sum.splits)

lemma recent_games_Inr:
  assumes "fst (get_recent_games parse self PlayerGameLog season n) = Inr recent"
  shows "is_active self \<and>
         (\<exists>df c0 c1 c2 c3 c4 c5.
            PlayerGameLog (player_id self) season = Inr df \<and> \<not> empty_frame df
            \<and> map_of df ''GAME_DATE'' = Some c0 \<and> map_of df ''PTS'' = Some c1
            \<and> map_of df ''AST'' = Some c2 \<and> map_of df ''REB'' = Some c3
            \<and> map_of df ''BLK'' = Some c4 \<and> map_of df ''STL'' = Some c5)"
proof -
  from assms have act: "is_active self"
    by (auto simp: get_recent_games_def split: if_splits)
  with assms obtain df where df: "PlayerGameLog (player_id self) season = Inr df"
    by (cases "PlayerGameLog (player_id self) season")
       (auto simp: get_recent_games_def wrap_simps)
  with assms act have ne: "\<not> empty_frame df"
    by (auto simp: get_recent_games_def wrap_simps split: if_splits)
  with assms act df obtain sel where "select_columns (''GAME_DATE'' # stat_columns) df = Inr sel"
    by (cases "select_columns (''GAME_DATE'' # stat_columns) df")
       (auto simp: get_recent_games_def wrap_simps)
  from select_columns_Inr [OF this] act df ne show ?thesis
    by blast
qed

lemma columns_present:
  assumes "set (''GAME_DATE'' # stat_columns) \<subseteq> fst ` set df"
  shows "\<exists>c0 c1 c2 c3 c4 c5.
           map_of df ''GAME_DATE'' = Some c0 \<and> map_of df ''PTS'' = Some c1
           \<and> map_of df ''AST'' = Some c2 \<and> map_of df ''REB'' = Some c3
           \<and> map_of df ''BLK'' = Some c4 \<and> map_of df ''STL'' = Some c5"
proof -
  have "\<And>c. c \<in> set (''GAME_DATE'' # stat_columns) \<Longrightarrow> \<exists>col. map_of df c = Some col"
  proof -
    fix c
    assume "c \<in> set (''GAME_DATE'' # stat_columns)"
    with assms have "c \<in> fst ` set df"
      by blast
    then have "map_of df c \<noteq> None"
      by (simp add: map_of_eq_None_iff)
    then show "\<exists>col. map_of df c = Some col"
      by blast
  qed
  then show ?thesis
    by (simp add: stat_columns_def)
qed

lemma nonempty_rows:
  assumes "df \<noteq> []" and "0 < nrows df"
  shows "\<not> empty_frame df"
  using assms by (simp add: empty_frame_def)

section \<open>Columns of numbers\<close>

lemma ge_cells_Val: "ge_cells (map Val vs) t = Inr (map (\<lambda>v. ge_float v t) vs)"
  by (induction vs) simp_all

lemma sum_bool_map: "sum_bool (map P vs) = length (filter P vs)"
  by (simp add: sum_bool_def filter_map comp_def)

lemma nansum_Val:
  "nansum (map Val vs) (s, k) = Inr (s + sum_list (known vs), k + length (known vs))"
proof (induction vs arbitrary: s k)
  case Nil
  show ?case by simp
next
  case (Cons v vs)
  show ?case
  proof (cases v)
    case NaN
    with Cons show ?thesis by simp
  next
    case (Num x)
    with Cons show ?thesis by (simp add: add.assoc)
  qed
qed

lemma mean_Val:
  "mean (map Val vs) =
     Inr (if known vs = [] then NaN else Num (sum_list (known vs) / of_nat (length (known vs))))"
  by (simp add: mean_def nansum_Val)

lemma compute_column:
  "map_of (data self) (stat self) = Some values \<Longrightarrow>
   compute self =
     (case compute_body self values of
        Inl e \<Rightarrow> Inl (RuntimeError ''Error computing stat formula: '' e)
      | Inr r \<Rightarrow> Inr r)"
  by (simp add: compute_def)

text \<open>
  The value of the model in threshold mode, for a column of any length. It is the value
  the code returns on columns of at most ten rows (see the section on rounding).
\<close>

lemma threshold_value:
  assumes "map_of (data self) (stat self) = Some (map Val vs)"
    and "vs \<noteq> []"
    and "threshold self = Some t"
  shows "compute self =
           Inr (Num (round_to 2 (of_nat (length (filter (\<lambda>v. ge_float v t) vs))
                                 / of_nat (length vs))))"
  using assms
  by (simp add: compute_column compute_body_def ge_cells_Val sum_bool_map true_divide_def)

lemma count_known:
  "length (filter (\<lambda>v. ge_float v t) vs) = length (filter (\<lambda>x. ge_float (Num x) t) (known vs))"
proof (induction vs)
  case Nil
  show ?case by simp
next
  case (Cons v vs)
  then show ?case
    by (cases v) simp_all
qed

lemma count_le_length: "length (filter P (known vs)) \<le> length vs"
proof -
  have "length (known vs) \<le> length vs"
    by (induction vs) (simp_all split: float64.splits)
  moreover have "length (filter P (known vs)) \<le> length (known vs)"
    by (rule length_filter_le)
  ultimately show ?thesis
    by (rule order_trans [rotated])
qed

lemma ratio_unit:
  assumes "c \<le> n" and "0 < n"
  shows "0 \<le> (of_nat c / of_nat n :: rat) \<and> (of_nat c / of_nat n :: rat) \<le> 1"
  using assms by simp

lemma ratio_antimono:
  assumes "0 < n" and "n \<le> n'"
  shows "(of_nat c / of_nat n' :: rat) \<le> of_nat c / of_nat n"
  using assms by (simp add: frac_le)

lemma ratio_gap:
  assumes "0 < c" and "0 < n" and "n < n'" and "n' \<le> 10"
  shows "(of_nat c / of_nat n' :: rat) + 1 / 100 < of_nat c / of_nat n"
proof -
  from assms have "n \<le> 9" and "n' \<le> 10"
    by simp_all
  then have "n * n' \<le> 9 * 10"
    by (rule mult_le_mono)
  moreover from assms have "100 * c * (n + 1) \<le> 100 * c * n'"
    by (intro mult_le_mono2) simp
  moreover from assms have "100 \<le> 100 * c"
    by simp
  ultimately have "100 * c * n + n * n' < 100 * c * n'"
    by (simp add: algebra_simps)
  then have "(of_nat (100 * c * n + n * n') :: rat) < of_nat (100 * c * n')"
    by (simp only: of_nat_less_iff)
  then have "100 * (of_nat c :: rat) * of_nat n + of_nat n * of_nat n' < 100 * of_nat c * of_nat n'"
    by simp
  moreover from assms have "(0::rat) < of_nat n" "(0::rat) < of_nat n'"
    by simp_all
  ultimately show ?thesis
    by (simp add: field_simps)
qed

lemma round_to_gap:
  assumes "y + 1 / 100 < x"
  shows "round_to 2 y < round_to 2 x"
proof -
  have "\<bar>round_to 2 y - y\<bar> \<le> 1 / 200" and "\<bar>round_to 2 x - x\<bar> \<le> 1 / 200"
    using round_to_nearest [of 2 y] round_to_nearest [of 2 x] by simp_all
  with assms show ?thesis
    by linarith
qed

section \<open>StatFormula.compute\<close>





text \<open>
  C3. A stat code that names no column of the table makes \<open>compute\<close> fail with a
  ValueError whose message names the stat, whatever the table holds and whether or not
  a threshold is set.
\<close>

theorem compute_unknown_stat:
  assumes "stat self \<notin> fst ` set (data self)"
  shows "compute self =
           Inl (ValueError (''Stat '' @ [quote] @ stat self @ [quote] @ '' not found in game data.''))"
proof -
  from assms have "map_of (data self) (stat self) = None"
    by (simp add: map_of_eq_None_iff)
  then show ?thesis
    by (simp add: compute_def)
qed

theorem compute_unknown_stat_witness:
  "stat (StatFormula_init [(''PTS'', [Val (Num 30), Str ''n/a''])] ''fga'' (Some (Num 20)))
     \<notin> fst ` set (data (StatFormula_init [(''PTS'', [Val (Num 30), Str ''n/a''])] ''fga''
                          (Some (Num 20))))
   \<and> compute (StatFormula_init [(''PTS'', [Val (Num 30), Str ''n/a''])] ''fga'' (Some (Num 20)))
     = Inl (ValueError ''Stat 'FGA' not found in game data.'')"
proof -
  let ?self = "StatFormula_init [(''PTS'', [Val (Num 30), Str ''n/a''])] ''fga'' (Some (Num 20))"
  have st: "stat ?self = ''FGA''"
    by code_simp
  have h: "stat ?self \<notin> fst ` set (data ?self)"
    unfolding st by (simp add: StatFormula_init_def)
  from compute_unknown_stat [OF h] show ?thesis
    using h unfolding st by (simp add: quote_def)
qed

section \<open>NBAData.get_career_averages\<close>

text \<open>
  C4. With no career row, or with a row of zero games played, the result is the empty
  mapping. With \<open>n > 0\<close> games played, each of the five averages is the total divided by
  \<open>n\<close> and rounded to one decimal: the nearest tenth, a tie going to the even tenth.
\<close>

theorem career_averages:
  "(PlayerCareerStats (player_id self) = Inr [] \<longrightarrow>
      get_career_averages self PlayerCareerStats = Inr [])
   \<and> (PlayerCareerStats (player_id self) = Inr (r # rs) \<and> GP r = 0 \<longrightarrow>
      get_career_averages self PlayerCareerStats = Inr [])
   \<and> (PlayerCareerStats (player_id self) = Inr (r # rs) \<and> 0 < GP r \<longrightarrow>
      get_career_averages self PlayerCareerStats =
        Inr [(''PTS'', Num (round_to 1 (of_int (PTS r) / of_int (GP r)))),
             (''AST'', Num (round_to 1 (of_int (AST r) / of_int (GP r)))),
             (''REB'', Num (round_to 1 (of_int (REB r) / of_int (GP r)))),
             (''BLK'', Num (round_to 1 (of_int (BLK r) / of_int (GP r)))),
             (''STL'', Num (round_to 1 (of_int (STL r) / of_int (GP r))))])
   \<and> (\<exists>m. round_to 1 q = of_int m / 10
          \<and> \<bar>round_to 1 q - q\<bar> \<le> 1 / 20
          \<and> (\<bar>round_to 1 q - q\<bar> = 1 / 20 \<longrightarrow> even m))"
proof -
  have "\<exists>m. round_to 1 q = of_int m / 10
          \<and> \<bar>round_to 1 q - q\<bar> \<le> 1 / 20
          \<and> (\<bar>round_to 1 q - q\<bar> = 1 / 20 \<longrightarrow> even m)"
    using round_to_ties_even [of 1 q] by simp
  then show ?thesis
    by (simp add: get_career_averages_def wrap_simps per_game_def Let_def)
qed

theorem career_averages_witness:
  "get_career_averages lebron (\<lambda>i. Inr []) = Inr []
   \<and> get_career_averages lebron
        (\<lambda>i. Inr [\<lparr>GP = 0, PTS = 0, AST = 0, REB = 0, BLK = 0, STL = 0\<rparr>]) = Inr []
   \<and> get_career_averages lebron
        (\<lambda>i. Inr [\<lparr>GP = 4, PTS = 109, AST = 3, REB = 30, BLK = 1, STL = 7\<rparr>])
     = Inr [(''PTS'', Num (136 / 5)), (''AST'', Num (4 / 5)), (''REB'', Num (15 / 2)),
            (''BLK'', Num (1 / 5)), (''STL'', Num (9 / 5))]"
proof -
  let ?z = "\<lparr>GP = 0, PTS = 0, AST = 0, REB = 0, BLK = 0, STL = 0\<rparr>"
  let ?r = "\<lparr>GP = 4, PTS = 109, AST = 3, REB = 30, BLK = 1, STL = 7\<rparr>"
  have v: "round_to 1 (of_int (PTS ?r) / of_int (GP ?r)) = 136 / 5"
    "round_to 1 (of_int (AST ?r) / of_int (GP ?r)) = 4 / 5"
    "round_to 1 (of_int (REB ?r) / of_int (GP ?r)) = 15 / 2"
    "round_to 1 (of_int (BLK ?r) / of_int (GP ?r)) = 1 / 5"
    "round_to 1 (of_int (STL ?r) / of_int (GP ?r)) = 9 / 5"
    by code_simp+
  have eq: "get_career_averages lebron (\<lambda>i. Inr [?r]) =
        Inr [(''PTS'', Num (round_to 1 (of_int (PTS ?r) / of_int (GP ?r)))),
             (''AST'', Num (round_to 1 (of_int (AST ?r) / of_int (GP ?r)))),
             (''REB'', Num (round_to 1 (of_int (REB ?r) / of_int (GP ?r)))),
             (''BLK'', Num (round_to 1 (of_int (BLK ?r) / of_int (GP ?r)))),
             (''STL'', Num (round_to 1 (of_int (STL ?r) / of_int (GP ?r))))]"
    using career_averages [of "\<lambda>i. Inr [?r]" lebron ?r "[]"] by simp
  have "get_career_averages lebron (\<lambda>i. Inr []) = Inr []"
    using career_averages [of "\<lambda>i. Inr []" lebron] by simp
  moreover have "get_career_averages lebron (\<lambda>i. Inr [?z]) = Inr []"
    using career_averages [of "\<lambda>i. Inr [?z]" lebron ?z "[]"] by simp
  moreover have "get_career_averages lebron (\<lambda>i. Inr [?r])
     = Inr [(''PTS'', Num (136 / 5)), (''AST'', Num (4 / 5)), (''REB'', Num (15 / 2)),
            (''BLK'', Num (1 / 5)), (''STL'', Num (9 / 5))]"
    unfolding eq v by (rule refl)
  ultimately show ?thesis
    by simp
qed

section \<open>NBAData.get_recent_games\<close>

text \<open>
  C5. For a player who is not active, \<open>get_recent_games\<close> raises the ValueError and
  makes no call to the game-log provider, for every season and every game count.
\<close>

theorem recent_games_inactive:
  "\<not> is_active self \<Longrightarrow>
   get_recent_games parse self PlayerGameLog season num_games =
     (Inl (ValueError (name self @ '' is not an active player. Recent game logs unavailable.'')), [])"
  by (simp add: get_recent_games_def)

theorem recent_games_inactive_witness:
  "\<not> is_active retired
   \<and> get_recent_games no_parse retired (\<lambda>i s. Inr log3) ''1997-98'' 10
     = (Inl (ValueError ''Michael Jordan is not an active player. Recent game logs unavailable.''),
        [])"
proof -
  have h: "\<not> is_active retired"
    by (simp add: retired_def)
  from recent_games_inactive [OF h, of no_parse "\<lambda>i s. Inr log3" "''1997-98''" 10] h
  show ?thesis
    by (simp add: retired_def)
qed

text \<open>
  C6. For a non-empty game log with \<open>k\<close> rows and every requested count \<open>n \<ge> 0\<close>,
  \<open>get_recent_games\<close> returns a table of exactly \<open>min n k\<close> rows and no error, so the
  table never has more rows than were requested and fewer rows than requested is no
  failure. An empty game log is an error, never a table of zero rows: the ValueError
  about missing data, which leaves the method wrapped into its RuntimeError.
\<close>

theorem recent_games_rows:
  "is_active self \<Longrightarrow> PlayerGameLog (player_id self) season = Inr df \<Longrightarrow>
   (empty_frame df \<longrightarrow>
      fst (get_recent_games parse self PlayerGameLog season n) =
        Inl (RuntimeError ''Error retrieving recent games: ''
               (ValueError (''No game log data available for '' @ name self
                             @ '' in season '' @ season @ ''.''))))
   \<and> (set (''GAME_DATE'' # stat_columns) \<subseteq> fst ` set df \<and> rectangular df
        \<and> 0 < nrows df \<and> 0 \<le> n \<longrightarrow>
      (\<exists>out. fst (get_recent_games parse self PlayerGameLog season n) = Inr out
             \<and> rectangular out
             \<and> nrows out = min (nat n) (nrows df)
             \<and> int (nrows out) \<le> n))"
proof (intro conjI impI)
  assume "is_active self" "PlayerGameLog (player_id self) season = Inr df" "empty_frame df"
  then show "fst (get_recent_games parse self PlayerGameLog season n) =
        Inl (RuntimeError ''Error retrieving recent games: ''
               (ValueError (''No game log data available for '' @ name self
                             @ '' in season '' @ season @ ''.'')))"
    by (simp add: get_recent_games_def wrap_simps)
next
  assume act: "is_active self" and df: "PlayerGameLog (player_id self) season = Inr df"
    and h: "set (''GAME_DATE'' # stat_columns) \<subseteq> fst ` set df \<and> rectangular df
              \<and> 0 < nrows df \<and> 0 \<le> n"
  from h have cols: "set (''GAME_DATE'' # stat_columns) \<subseteq> fst ` set df"
    and rect: "rectangular df" and k: "0 < nrows df" and n: "0 \<le> n"
    by simp_all
  from columns_present [OF cols] obtain c0 c1 c2 c3 c4 c5 where
    c: "map_of df ''GAME_DATE'' = Some c0" "map_of df ''PTS'' = Some c1"
       "map_of df ''AST'' = Some c2" "map_of df ''REB'' = Some c3"
       "map_of df ''BLK'' = Some c4" "map_of df ''STL'' = Some c5"
    by blast
  from k have "df \<noteq> []"
    by (auto simp: nrows_def)
  then have ne: "\<not> empty_frame df"
    using k by (rule nonempty_rows)
  let ?out = "[(''GAME_DATE'', py_head n c0),
               (''PTS'', to_numeric parse (py_head n c1)),
               (''AST'', to_numeric parse (py_head n c2)),
               (''REB'', to_numeric parse (py_head n c3)),
               (''BLK'', to_numeric parse (py_head n c4)),
               (''STL'', to_numeric parse (py_head n c5))]"
  have res: "fst (get_recent_games parse self PlayerGameLog season n) = Inr ?out"
    using act df ne c by (rule recent_games_result)
  have len: "length c0 = nrows df" "length c1 = nrows df" "length c2 = nrows df"
    "length c3 = nrows df" "length c4 = nrows df" "length c5 = nrows df"
    using c rect by (simp_all add: rectangular_column)
  have rows: "nrows ?out = min (nat n) (nrows df)"
    using n len by (simp add: nrows_def length_py_head)
  have "rectangular ?out"
    unfolding rectangular_def rows
    using n len by (simp add: length_py_head length_to_numeric)
  moreover from rows n have "int (nrows ?out) \<le> n"
    by simp
  ultimately show "\<exists>out. fst (get_recent_games parse self PlayerGameLog season n) = Inr out
             \<and> rectangular out \<and> nrows out = min (nat n) (nrows df) \<and> int (nrows out) \<le> n"
    using res rows by blast
qed

theorem recent_games_rows_witness:
  "is_active lebron \<and> rectangular log3 \<and> nrows log3 = 3
   \<and> set (''GAME_DATE'' # stat_columns) \<subseteq> fst ` set log3
   \<and> (\<exists>out. fst (get_recent_games no_parse lebron (\<lambda>i s. Inr log3) ''2024-25'' 10) = Inr out
            \<and> rectangular out \<and> nrows out = 3)
   \<and> (\<exists>out. fst (get_recent_games no_parse lebron (\<lambda>i s. Inr log3) ''2024-25'' 2) = Inr out
            \<and> rectangular out \<and> nrows out = 2)
   \<and> empty_frame log0
   \<and> fst (get_recent_games no_parse lebron (\<lambda>i s. Inr log0) ''2024-25'' 10)
     = Inl (RuntimeError ''Error retrieving recent games: ''
              (ValueError ''No game log data available for Lebron James in season 2024-25.''))
   \<and> fst (get_recent_games no_parse lebron (\<lambda>i s. Inr []) ''2024-25'' 10)
     = Inl (RuntimeError ''Error retrieving recent games: ''
              (ValueError ''No game log data available for Lebron James in season 2024-25.''))"
proof -
  have act: "is_active lebron"
    by (simp add: lebron_def)
  have rect: "rectangular log3"
    by code_simp
  have rows: "nrows log3 = 3"
    by code_simp
  have cols: "set (''GAME_DATE'' # stat_columns) \<subseteq> fst ` set log3"
    by (simp add: stat_columns_def log3_def)
  have nm: "name lebron = ''Lebron James''"
    by (simp add: lebron_def)
  have e: "empty_frame []"
    by (simp add: empty_frame_def)
  have e0: "empty_frame log0"
    by code_simp
  from recent_games_rows [where self = lebron and PlayerGameLog = "\<lambda>i s. Inr log3"
      and season = "''2024-25''" and df = log3 and parse = no_parse and n = 10]
    act rect rows cols
  have a: "\<exists>out. fst (get_recent_games no_parse lebron (\<lambda>i s. Inr log3) ''2024-25'' 10) = Inr out
            \<and> rectangular out \<and> nrows out = 3"
    by auto
  from recent_games_rows [where self = lebron and PlayerGameLog = "\<lambda>i s. Inr log3"
      and season = "''2024-25''" and df = log3 and parse = no_parse and n = 2]
    act rect rows cols
  have a2: "\<exists>out. fst (get_recent_games no_parse lebron (\<lambda>i s. Inr log3) ''2024-25'' 2) = Inr out
            \<and> rectangular out \<and> nrows out = 2"
    by auto
  from recent_games_rows [where self = lebron and PlayerGameLog = "\<lambda>i s. Inr log0"
      and season = "''2024-25''" and df = log0 and parse = no_parse and n = 10]
    act e0 nm
  have b0: "fst (get_recent_games no_parse lebron (\<lambda>i s. Inr log0) ''2024-25'' 10)
     = Inl (RuntimeError ''Error retrieving recent games: ''
              (ValueError ''No game log data available for Lebron James in season 2024-25.''))"
    by simp
  from recent_games_rows [where self = lebron and PlayerGameLog = "\<lambda>i s. Inr []"
      and season = "''2024-25''" and df = "[]" and parse = no_parse and n = 10]
    act e nm
  have b: "fst (get_recent_games no_parse lebron (\<lambda>i s. Inr []) ''2024-25'' 10)
     = Inl (RuntimeError ''Error retrieving recent games: ''
              (ValueError ''No game log data available for Lebron James in season 2024-25.''))"
    by simp
  from act rect rows cols a a2 e0 b0 b show ?thesis
    by simp
qed

section \<open>NBAData.lookup_player_id\<close>

text \<open>
  C7, as stated, fails where no entry matches: the ValueError raised for the missing
  player is caught by the handler of the same method and leaves as the RuntimeError that
  also wraps a failure of the directory call; no ValueError reaches the caller.
\<close>

theorem lookup_not_found_counterexample:
  "init_player_id ascii_lower ascii_title ''bron james'' (Inr directory)
     = Inl (RuntimeError ''Error looking up player ID: ''
              (ValueError ''Player 'Bron James' not found in NBA API.''))
   \<and> init_player_id ascii_lower ascii_title ''bron james'' (Inr directory)
     \<noteq> Inl (ValueError ''Player 'Bron James' not found in NBA API.'')"
proof -
  have "init_player_id ascii_lower ascii_title ''bron james'' (Inr directory)
     = Inl (RuntimeError ''Error looking up player ID: ''
              (ValueError ''Player 'Bron James' not found in NBA API.''))"
    by code_simp
  then show ?thesis
    by simp
qed

text \<open>
  C7, amended. The input name is put in title case and compared in lower case with the
  full names of the directory. When exactly one entry matches, the lookup returns its
  identifier. When none matches, it fails with the RuntimeError of the lookup wrapping
  the not-found ValueError that names the title-cased input. A failure of the directory
  call is wrapped into a RuntimeError with the same prefix; the two failures differ in
  the wrapped cause only. This holds whatever \<^verbatim>\<open>str.lower\<close> and \<^verbatim>\<open>str.title\<close> do to the
  letters of a name; on ASCII names the title case does not change which entries match.
\<close>

theorem lookup_cases:
  "(filter (\<lambda>p. str_lower (full_name p) = str_lower (str_title input_name)) all_players = [e]
      \<longrightarrow> init_player_id str_lower str_title input_name (Inr all_players) = Inr (entry_id e))
   \<and> (filter (\<lambda>p. str_lower (full_name p) = str_lower (str_title input_name)) all_players = []
      \<longrightarrow> init_player_id str_lower str_title input_name (Inr all_players) =
            Inl (RuntimeError ''Error looking up player ID: ''
                   (ValueError (''Player '' @ [quote] @ str_title input_name @ [quote]
                                 @ '' not found in NBA API.''))))
   \<and> init_player_id str_lower str_title input_name (Inl err) =
       Inl (RuntimeError ''Error looking up player ID: '' err)
   \<and> filter (\<lambda>p. ascii_lower (full_name p) = ascii_lower (ascii_title input_name)) all_players =
       filter (\<lambda>p. ascii_lower (full_name p) = ascii_lower input_name) all_players"
  by (simp add: init_player_id_def lookup_player_id_def wrap_simps ascii_lower_title)

theorem lookup_cases_witness:
  "filter (\<lambda>p. ascii_lower (full_name p) = ascii_lower (ascii_title ''lebron james'')) directory
     = [\<lparr>full_name = ''LeBron James'', entry_id = 2544\<rparr>]
   \<and> filter (\<lambda>p. ascii_lower (full_name p) = ascii_lower ''lebron james'') directory
     = [\<lparr>full_name = ''LeBron James'', entry_id = 2544\<rparr>]
   \<and> init_player_id ascii_lower ascii_title ''lebron james'' (Inr directory) = Inr 2544
   \<and> filter (\<lambda>p. ascii_lower (full_name p) = ascii_lower (ascii_title ''bron james'')) directory
     = []
   \<and> init_player_id ascii_lower ascii_title ''bron james'' (Inr directory)
     = Inl (RuntimeError ''Error looking up player ID: ''
              (ValueError ''Player 'Bron James' not found in NBA API.''))
   \<and> init_player_id ascii_lower ascii_title ''lebron james'' (Inl (ApiError ''timed out''))
     = Inl (RuntimeError ''Error looking up player ID: '' (ApiError ''timed out''))"
proof -
  let ?e = "\<lparr>full_name = ''LeBron James'', entry_id = 2544\<rparr>"
  have one: "filter (\<lambda>p. ascii_lower (full_name p) = ascii_lower (ascii_title ''lebron james''))
               directory = [?e]"
    by code_simp
  have none: "filter (\<lambda>p. ascii_lower (full_name p) = ascii_lower (ascii_title ''bron james''))
                directory = []"
    by code_simp
  have t: "ascii_title ''bron james'' = ''Bron James''"
    by code_simp
  note found = lookup_cases [where str_lower = ascii_lower and str_title = ascii_title
      and input_name = "''lebron james''" and all_players = directory and e = ?e
      and err = "ApiError ''timed out''"]
  note missing = lookup_cases [where str_lower = ascii_lower and str_title = ascii_title
      and input_name = "''bron james''" and all_players = directory]
  from found one
  have a: "init_player_id ascii_lower ascii_title ''lebron james'' (Inr directory) = Inr 2544"
    by simp
  from found
  have c: "init_player_id ascii_lower ascii_title ''lebron james'' (Inl (ApiError ''timed out''))
              = Inl (RuntimeError ''Error looking up player ID: '' (ApiError ''timed out''))"
    by simp
  from found one
  have plain: "filter (\<lambda>p. ascii_lower (full_name p) = ascii_lower ''lebron james'') directory
                 = [?e]"
    by simp
  from missing none t
  have b: "init_player_id ascii_lower ascii_title ''bron james'' (Inr directory)
     = Inl (RuntimeError ''Error looking up player ID: ''
              (ValueError ''Player 'Bron James' not found in NBA API.''))"
    by (simp add: quote_def)
  from one plain a none b c show ?thesis
    by simp
qed

section \<open>The empty table and missing values in threshold mode\<close>

text \<open>
  C8, as stated, fails: on a stat column of zero rows \<open>compute\<close> in threshold mode
  returns NaN and raises nothing, since nothing guards the division. Such a table is
  what \<open>get_recent_games\<close> returns for the count 0.
\<close>

theorem compute_empty_table_counterexample:
  "compute (StatFormula_init [(''PTS'', [])] ''PTS'' (Some (Num 20))) = Inr NaN
   \<and> fst (get_recent_games no_parse lebron (\<lambda>i s. Inr log3) ''2024-25'' 0) = Inr recent0
   \<and> compute (StatFormula_init recent0 ''PTS'' (Some (Num 20))) = Inr NaN"
proof -
  have "compute (StatFormula_init [(''PTS'', [])] ''PTS'' (Some (Num 20))) = Inr NaN"
    by code_simp
  moreover have "fst (get_recent_games no_parse lebron (\<lambda>i s. Inr log3) ''2024-25'' 0) = Inr recent0"
    by code_simp
  moreover have "compute (StatFormula_init recent0 ''PTS'' (Some (Num 20))) = Inr NaN"
    by code_simp
  ultimately show ?thesis
    by simp
qed

text \<open>
  C8, amended. In threshold mode \<open>compute\<close> on a stat column of zero rows returns NaN:
  neither an error nor 0.0. A table returned by \<open>get_recent_games\<close> for a positive count
  has a row in each of its five stat columns, so on it \<open>compute\<close> returns a number.
\<close>

theorem compute_empty_table:
  "(map_of (data self) (stat self) = Some [] \<and> threshold self = Some t \<longrightarrow>
      compute self = Inr NaN)
   \<and> (PlayerGameLog (player_id player) season = Inr df \<and> rectangular df \<and> 0 < n
        \<and> fst (get_recent_games parse player PlayerGameLog season n) = Inr recent
        \<and> s \<in> set stat_columns \<longrightarrow>
      (\<exists>p. compute (StatFormula_init recent s (Some t)) = Inr (Num p)))"
proof (intro conjI impI)
  assume "map_of (data self) (stat self) = Some [] \<and> threshold self = Some t"
  then show "compute self = Inr NaN"
    by (simp add: compute_def compute_body_def sum_bool_def true_divide_def)
next
  assume h: "PlayerGameLog (player_id player) season = Inr df \<and> rectangular df \<and> 0 < n
        \<and> fst (get_recent_games parse player PlayerGameLog season n) = Inr recent
        \<and> s \<in> set stat_columns"
  then have df: "PlayerGameLog (player_id player) season = Inr df" and rect: "rectangular df"
    and n: "0 < n" and res: "fst (get_recent_games parse player PlayerGameLog season n) = Inr recent"
    and s: "s \<in> set stat_columns"
    by simp_all
  from recent_games_Inr [OF res] df obtain c0 c1 c2 c3 c4 c5 where
    act: "is_active player" and ne: "\<not> empty_frame df" and
    c: "map_of df ''GAME_DATE'' = Some c0" "map_of df ''PTS'' = Some c1"
       "map_of df ''AST'' = Some c2" "map_of df ''REB'' = Some c3"
       "map_of df ''BLK'' = Some c4" "map_of df ''STL'' = Some c5"
    by auto
  from ne have k: "0 < nrows df"
    by (simp add: empty_frame_def)
  have len: "length c1 = nrows df" "length c2 = nrows df"
    "length c3 = nrows df" "length c4 = nrows df" "length c5 = nrows df"
    using c rect by (simp_all add: rectangular_column)
  have "fst (get_recent_games parse player PlayerGameLog season n) =
          Inr [(''GAME_DATE'', py_head n c0),
               (''PTS'', to_numeric parse (py_head n c1)),
               (''AST'', to_numeric parse (py_head n c2)),
               (''REB'', to_numeric parse (py_head n c3)),
               (''BLK'', to_numeric parse (py_head n c4)),
               (''STL'', to_numeric parse (py_head n c5))]"
    using act df ne c by (rule recent_games_result)
  with res have recent: "recent =
          [(''GAME_DATE'', py_head n c0),
           (''PTS'', to_numeric parse (py_head n c1)),
           (''AST'', to_numeric parse (py_head n c2)),
           (''REB'', to_numeric parse (py_head n c3)),
           (''BLK'', to_numeric parse (py_head n c4)),
           (''STL'', to_numeric parse (py_head n c5))]"
    by simp
  have up: "upper s = s"
    using s by (auto simp: stat_columns_def upper_def upper_char_def)
  from s obtain col where col: "map_of recent s = Some (to_numeric parse (py_head n col))"
    and lc: "length col = nrows df"
    unfolding recent using len by (auto simp: stat_columns_def)
  let ?vs = "map (coerce_cell parse) (py_head n col)"
  let ?self = "StatFormula_init recent s (Some t)"
  have "length (py_head n col) = min (nat n) (nrows df)"
    using n lc by (simp add: length_py_head)
  with n k have vs: "?vs \<noteq> []"
    by auto
  have m: "map_of (data ?self) (stat ?self) = Some (map Val ?vs)"
    using col by (simp add: StatFormula_init_def up to_numeric_Val)
  have thr: "threshold ?self = Some t"
    by (simp add: StatFormula_init_def)
  have "compute ?self =
          Inr (Num (round_to 2 (of_nat (length (filter (\<lambda>v. ge_float v t) ?vs))
                                 / of_nat (length ?vs))))"
    using m vs thr by (rule threshold_value)
  then show "\<exists>p. compute (StatFormula_init recent s (Some t)) = Inr (Num p)"
    by blast
qed

theorem compute_empty_table_witness:
  "map_of (data (StatFormula_init [(''PTS'', [])] ''PTS'' (Some (Num 20))))
          (stat (StatFormula_init [(''PTS'', [])] ''PTS'' (Some (Num 20)))) = Some []
   \<and> compute (StatFormula_init [(''PTS'', [])] ''PTS'' (Some (Num 20))) = Inr NaN
   \<and> rectangular log3 \<and> ''PTS'' \<in> set stat_columns
   \<and> fst (get_recent_games no_parse lebron (\<lambda>i s. Inr log3) ''2024-25'' 5) = Inr recent3
   \<and> (\<exists>p. compute (StatFormula_init recent3 ''PTS'' (Some (Num 20))) = Inr (Num p))"
proof -
  let ?self = "StatFormula_init [(''PTS'', [])] ''PTS'' (Some (Num 20))"
  have col: "map_of (data ?self) (stat ?self) = Some []"
    by code_simp
  have thr: "threshold ?self = Some (Num 20)"
    by (simp add: StatFormula_init_def)
  have rect: "rectangular log3"
    by code_simp
  have s: "''PTS'' \<in> set stat_columns"
    by (simp add: stat_columns_def)
  have res: "fst (get_recent_games no_parse lebron (\<lambda>i s. Inr log3) ''2024-25'' 5) = Inr recent3"
    by code_simp
  from compute_empty_table [where self = ?self and t = "Num 20" and player = lebron
      and PlayerGameLog = "\<lambda>i s. Inr log3" and season = "''2024-25''" and df = log3 and n = 5
      and parse = no_parse and recent = recent3 and s = "''PTS''"]
    col thr rect s res
  have "compute ?self = Inr NaN
        \<and> (\<exists>p. compute (StatFormula_init recent3 ''PTS'' (Some (Num 20))) = Inr (Num p))"
    by simp
  with col rect s res show ?thesis
    by simp
qed

section \<open>The report line\<close>

text \<open>
  C9. For the games with 30, 20, 28, 24 and 26 points and the threshold 25 the
  probability is 0.60, and the line ends with \<^verbatim>\<open>25.0 PTS.\<close> after \<^verbatim>\<open>60.0% chance of\<close>; the
  sign printed between them is the three-character sequence of the source, not the
  character U+2265.
\<close>

theorem report_sign:
  "predict no_parse lebron (\<lambda>i s. Inr log5) ''2024-25'' 5 ''PTS'' (Some (Num 25))
     = Inr ([CHR 0x0A] @ ''Prediction: Lebron James has a 60.0% chance of '' @ source_sign
            @ '' 25.0 PTS.'')
   \<and> predict no_parse lebron (\<lambda>i s. Inr log5) ''2024-25'' 5 ''PTS'' (Some (Num 25))
     \<noteq> Inr ([CHR 0x0A] @ ''Prediction: Lebron James has a 60.0% chance of '' @ ge_sign
            @ '' 25.0 PTS.'')"
proof -
  have "predict no_parse lebron (\<lambda>i s. Inr log5) ''2024-25'' 5 ''PTS'' (Some (Num 25))
     = Inr ([CHR 0x0A] @ ''Prediction: Lebron James has a 60.0% chance of '' @ source_sign
            @ '' 25.0 PTS.'')"
    by code_simp
  moreover have "source_sign \<noteq> ge_sign"
    by (simp add: source_sign_def ge_sign_def)
  ultimately show ?thesis
    by simp
qed

section \<open>Missing values\<close>

text \<open>
  C10. In threshold mode the numerator counts only entries that are numbers at least
  the threshold, the denominator counts every row, NaN rows included (the value is
  stated for columns of at most ten rows); the result lies between 0 and 1. A column
  with the same numbers and more NaN rows never gets a higher result, and within ten
  rows it gets a lower one as soon as some entry meets the threshold; in average mode
  it gets the same result.
\<close>

theorem threshold_missing_values:
  assumes "map_of (data self) (stat self) = Some (map Val vs)"
    and "vs \<noteq> []"
    and "threshold self = Some t"
  shows "(length vs \<le> 10 \<longrightarrow>
          compute self =
            Inr (Num (round_to 2 (of_nat (length (filter (\<lambda>x. ge_float (Num x) t) (known vs)))
                                  / of_nat (length vs)))))
       \<and> (\<exists>p. compute self = Inr (Num p) \<and> 0 \<le> p \<and> p \<le> 1)
       \<and> (map_of (data self') (stat self') = Some (map Val vs') \<and> threshold self' = Some t
            \<and> known vs' = known vs \<and> length vs \<le> length vs' \<longrightarrow>
          (\<exists>p p'. compute self = Inr (Num p) \<and> compute self' = Inr (Num p') \<and> p' \<le> p))
       \<and> (map_of (data self') (stat self') = Some (map Val vs') \<and> threshold self' = Some t
            \<and> known vs' = known vs \<and> length vs < length vs' \<and> length vs' \<le> 10
            \<and> (\<exists>x\<in>set (known vs). ge_float (Num x) t) \<longrightarrow>
          (\<exists>p p'. compute self = Inr (Num p) \<and> compute self' = Inr (Num p') \<and> p' < p))
       \<and> (map_of (data a) (stat a) = Some (map Val vs) \<and> threshold a = None
            \<and> map_of (data a') (stat a') = Some (map Val vs') \<and> threshold a' = None
            \<and> known vs' = known vs \<longrightarrow>
          compute a' = compute a)"
proof -
  let ?c = "length (filter (\<lambda>x. ge_float (Num x) t) (known vs))"
  let ?p = "round_to 2 (of_nat ?c / of_nat (length vs))"
  from assms(2) have n: "0 < length vs"
    by simp
  have val: "compute self = Inr (Num ?p)"
    using threshold_value [OF assms] by (simp add: count_known)
  have c: "?c \<le> length vs"
    by (rule count_le_length)
  have unit: "0 \<le> ?p \<and> ?p \<le> 1"
    using ratio_unit [OF c n] by (simp add: round_to_unit)
  have val': "compute self' =
                Inr (Num (round_to 2 (of_nat ?c / of_nat (length vs'))))"
    if h: "map_of (data self') (stat self') = Some (map Val vs')" "threshold self' = Some t"
      "known vs' = known vs" "length vs \<le> length vs'"
  proof -
    from h(4) n have "vs' \<noteq> []"
      by auto
    with h(1) have "compute self' =
        Inr (Num (round_to 2 (of_nat (length (filter (\<lambda>v. ge_float v t) vs'))
                              / of_nat (length vs'))))"
      using h(2) by (rule threshold_value)
    then show ?thesis
      by (simp add: count_known h(3))
  qed
  have more: "\<exists>p p'. compute self = Inr (Num p) \<and> compute self' = Inr (Num p') \<and> p' \<le> p"
    if h: "map_of (data self') (stat self') = Some (map Val vs') \<and> threshold self' = Some t
            \<and> known vs' = known vs \<and> length vs \<le> length vs'"
  proof -
    from h have le: "length vs \<le> length vs'"
      by simp
    have "round_to 2 (of_nat ?c / of_nat (length vs')) \<le> ?p"
      by (rule round_to_mono) (rule ratio_antimono [OF n le])
    moreover from h have "compute self' =
                Inr (Num (round_to 2 (of_nat ?c / of_nat (length vs'))))"
      by (intro val') simp_all
    ultimately show ?thesis
      using val by blast
  qed
  have less: "\<exists>p p'. compute self = Inr (Num p) \<and> compute self' = Inr (Num p') \<and> p' < p"
    if h: "map_of (data self') (stat self') = Some (map Val vs') \<and> threshold self' = Some t
            \<and> known vs' = known vs \<and> length vs < length vs' \<and> length vs' \<le> 10
            \<and> (\<exists>x\<in>set (known vs). ge_float (Num x) t)"
  proof -
    from h have lt: "length vs < length vs'" and ten: "length vs' \<le> 10"
      by simp_all
    from h have "filter (\<lambda>x. ge_float (Num x) t) (known vs) \<noteq> []"
      by (simp add: filter_empty_conv)
    then have pos: "0 < ?c"
      by simp
    have "round_to 2 (of_nat ?c / of_nat (length vs')) < ?p"
      by (rule round_to_gap) (rule ratio_gap [OF pos n lt ten])
    moreover from h have "compute self' =
                Inr (Num (round_to 2 (of_nat ?c / of_nat (length vs'))))"
      by (intro val') simp_all
    ultimately show ?thesis
      using val by blast
  qed
  have avg: "compute a' = compute a"
    if h: "map_of (data a) (stat a) = Some (map Val vs) \<and> threshold a = None
            \<and> map_of (data a') (stat a') = Some (map Val vs') \<and> threshold a' = None
            \<and> known vs' = known vs"
    using h by (simp add: compute_column compute_body_def mean_Val)
  from val unit more less avg show ?thesis
    by blast
qed

theorem threshold_missing_values_witness:
  "compute (StatFormula_init [(''PTS'', map Val [Num 22, Num 18])] ''PTS'' (Some (Num 20)))
     = Inr (Num (1 / 2))
   \<and> compute (StatFormula_init [(''PTS'', map Val [Num 22, NaN, Num 18])] ''PTS'' (Some (Num 20)))
     = Inr (Num (33 / 100))
   \<and> compute (StatFormula_init [(''PTS'', map Val [Num 22, NaN, Num 18])] ''PTS'' None)
     = compute (StatFormula_init [(''PTS'', map Val [Num 22, Num 18])] ''PTS'' None)"
proof -
  let ?vs = "[Num 22, Num 18]" and ?ws = "[Num 22, NaN, Num 18]"
  let ?s = "StatFormula_init [(''PTS'', map Val ?vs)] ''PTS'' (Some (Num 20))"
  let ?s' = "StatFormula_init [(''PTS'', map Val ?ws)] ''PTS'' (Some (Num 20))"
  let ?a = "StatFormula_init [(''PTS'', map Val ?vs)] ''PTS'' None"
  let ?a' = "StatFormula_init [(''PTS'', map Val ?ws)] ''PTS'' None"
  have col: "map_of (data ?s) (stat ?s) = Some (map Val ?vs)"
    "map_of (data ?s') (stat ?s') = Some (map Val ?ws)"
    "map_of (data ?a) (stat ?a) = Some (map Val ?vs)"
    "map_of (data ?a') (stat ?a') = Some (map Val ?ws)"
    by code_simp+
  have thr: "threshold ?s = Some (Num 20)" "threshold ?s' = Some (Num 20)"
    "threshold ?a = None" "threshold ?a' = None"
    by (simp_all add: StatFormula_init_def)
  have ne: "?vs \<noteq> []" "?ws \<noteq> []"
    by simp_all
  have le: "length ?vs \<le> 10" "length ?ws \<le> 10"
    by simp_all
  have kn: "known ?ws = known ?vs"
    by simp
  have v: "round_to 2 (of_nat (length (filter (\<lambda>x. ge_float (Num x) (Num 20)) (known ?vs)))
                        / of_nat (length ?vs)) = 1 / 2"
    "round_to 2 (of_nat (length (filter (\<lambda>x. ge_float (Num x) (Num 20)) (known ?ws)))
                        / of_nat (length ?ws)) = 33 / 100"
    by code_simp+
  note t1 = threshold_missing_values [OF col(1) ne(1) thr(1), where a = ?a and a' = ?a' and vs' = ?ws]
  note t2 = threshold_missing_values [OF col(2) ne(2) thr(2)]
  from t1 le(1) have "compute ?s = Inr (Num (1 / 2))"
    unfolding v by blast
  moreover from t2 le(2) have "compute ?s' = Inr (Num (33 / 100))"
    unfolding v by blast
  moreover from t1 col thr kn have "compute ?a' = compute ?a"
    by blast
  ultimately show ?thesis
    by (intro conjI)
qed

end
